theory Spec2Isabelle
  imports Main "HOL-Library.Word"
begin

unbundle bit_operations_syntax

section \<open>Data model of package pgtype\<close>

text \<open>
  Go's \<open>[]byte\<close> is a list of 8-bit words, Go's \<open>string\<close> is an Isabelle string (a
  list of 8-bit characters). A slice that may be \<open>nil\<close> is a \<open>byte list option\<close>:
  \<open>None\<close> is the nil slice, \<open>Some []\<close> the empty slice that is not nil.
\<close>

type_synonym byte = "8 word"
type_synonym uint32 = "32 word"
type_synonym uint64 = "64 word"

text \<open>
  Modelled from the spec: the declaration of \<open>Status\<close> (pgtype.go) is not among the
  sources. Section 3 gives its three states: Present (valid data), Null (SQL NULL) and
  Undefined (never assigned).
\<close>

datatype Status = Undefined | Null | Present

record pguint32 =
  Uint :: uint32
  Status :: Status

text \<open>The conversions \<open>string(src)\<close> and \<open>[]byte(s)\<close>: the same bytes.\<close>

definition string_of_bytes :: "byte list \<Rightarrow> string" where
  "string_of_bytes bs = map (\<lambda>b. char_of (unat b)) bs"

definition bytes_of_string :: "string \<Rightarrow> byte list" where
  "bytes_of_string s = map (\<lambda>c. (of_char c :: byte)) s"

subsection \<open>Dynamic values\<close>

text \<open>
  \<open>ConvertFrom\<close> and \<open>AssignTo\<close> take an \<open>interface{}\<close> and switch on its dynamic
  type. The model has the dynamic types built from the scalar types below, the struct
  \<open>pguint32\<close> and pointers to them. A pointer carries its pointee: \<open>Ptr t None\<close> is the
  nil pointer of type \<open>*t\<close>, \<open>Ptr t (Some v)\<close> points to a variable that holds \<open>v\<close>, and
  an assignment through the pointer returns the pointer with the new pointee. Go's \<open>int\<close>
  is taken at 64 bits.
\<close>

datatype go_type =
  Tbool | Tstring | Tint | Tint32 | Tint64 | Tuint32 | Tuint64 | Tpguint32 | Tptr go_type

datatype go_value =
    GoNil
  | GoBool bool
  | GoString string
  | GoInt "64 word"
  | GoInt32 "32 word"
  | GoInt64 "64 word"
  | GoUint32 uint32
  | GoUint64 uint64
  | GoPguint32 pguint32
  | Ptr go_type "go_value option"

text \<open>The dynamic type of an interface value; the nil interface has none.\<close>

fun TypeOf :: "go_value \<Rightarrow> go_type option" where
  "TypeOf GoNil = None"
| "TypeOf (GoBool _) = Some Tbool"
| "TypeOf (GoString _) = Some Tstring"
| "TypeOf (GoInt _) = Some Tint"
| "TypeOf (GoInt32 _) = Some Tint32"
| "TypeOf (GoInt64 _) = Some Tint64"
| "TypeOf (GoUint32 _) = Some Tuint32"
| "TypeOf (GoUint64 _) = Some Tuint64"
| "TypeOf (GoPguint32 _) = Some Tpguint32"
| "TypeOf (Ptr t _) = Some (Tptr t)"

subsection \<open>Errors\<close>

text \<open>
  An error of \<open>fmt.Errorf\<close> keeps its format and its arguments; \<open>Sprintf\<close> below renders
  them. \<open>errUndefined\<close> is the package's error value for encoding an Undefined value.
  \<open>NumError\<close> is \<open>*strconv.NumError\<close> with its fields Func, Num and Err. \<open>WriterError\<close>
  stands for whatever error an \<open>io.Writer\<close> returns.
\<close>

datatype num_err = ErrSyntax | ErrRange | ErrBase

datatype error =
    Errorf string "go_value list"
  | errUndefined
  | NumError string string num_err
  | WriterError string

text \<open>
  A call that can dereference a nil pointer either panics or returns.
\<close>

datatype 'a outcome = Panic | Return 'a

section \<open>Package strconv\<close>

text \<open>
  \<open>strconv.FormatUint(n, 10)\<close>: the loop of \<open>formatBits\<close> for base 10, which writes
  the digits from the right.
\<close>

definition digit_char :: "uint64 \<Rightarrow> char" where
  "digit_char u = char_of (48 + unat u)"

function formatBits :: "uint64 \<Rightarrow> string \<Rightarrow> string" where
  "formatBits u a =
     (if 10 \<le> u then formatBits (u div 10) (digit_char (u - (u div 10) * 10) # a)
      else digit_char u # a)"
  by pat_completeness auto
termination
proof (relation "measure (\<lambda>(u, a). unat u)")
  show "wf (measure (\<lambda>(u, a). unat u))" by simp
next
  fix u :: uint64 and a :: string
  assume "10 \<le> u"
  then have "10 \<le> unat u" by (simp add: word_le_nat_alt)
  then have "unat u div 10 < unat u" by simp
  then show "((u div 10, digit_char (u - u div 10 * 10) # a), (u, a)) \<in> measure (\<lambda>(u, a). unat u)"
    by (simp add: unat_div)
qed

declare formatBits.simps [simp del]

definition FormatUint10 :: "uint64 \<Rightarrow> string" where
  "FormatUint10 n = formatBits n []"

text \<open>
  \<open>strconv.ParseUint(s, base, bitSize)\<close> for an explicit base from 2 to 36 and a bit
  size up to 64, where 0 stands for 64. The loop reads the string from the left with a
  64-bit accumulator \<open>n\<close>: a byte that is no digit of the base is a syntax error;
  \<open>n \<ge> cutoff\<close> (the product \<open>n * base\<close> would overflow), a sum that wraps
  around, and a sum above \<open>maxVal\<close> are range errors.
\<close>

definition digit_value :: "char \<Rightarrow> byte option" where
  "digit_value c =
     (let d = (of_char c :: byte) in
      if 48 \<le> d \<and> d \<le> 57 then Some (d - 48)
      else if 97 \<le> d \<and> d \<le> 122 then Some (d - 97 + 10)
      else if 65 \<le> d \<and> d \<le> 90 then Some (d - 65 + 10)
      else None)"

fun ParseUint_loop :: "uint64 \<Rightarrow> uint64 \<Rightarrow> uint64 \<Rightarrow> uint64 \<Rightarrow> string \<Rightarrow> num_err + uint64" where
  "ParseUint_loop base cutoff maxVal n [] = Inr n"
| "ParseUint_loop base cutoff maxVal n (c # s) =
     (case digit_value c of
        None \<Rightarrow> Inl ErrSyntax
      | Some v \<Rightarrow>
          if (ucast base :: byte) \<le> v then Inl ErrSyntax
          else if cutoff \<le> n then Inl ErrRange
          else
            let n' = n * base; n1 = n' + ucast v in
            if n1 < n' \<or> maxVal < n1 then Inl ErrRange
            else ParseUint_loop base cutoff maxVal n1 s)"

definition ParseUint :: "string \<Rightarrow> nat \<Rightarrow> nat \<Rightarrow> error + uint64" where
  "ParseUint s base bitSize =
     (let bitSize = (if bitSize = 0 then 64 else bitSize) in
      if length s < 1 then Inl (NumError ''ParseUint'' s ErrSyntax)
      else if 2 \<le> base \<and> base \<le> 36 then
        (let cutoff = (- 1 :: uint64) div of_nat base + 1;
             maxVal = push_bit bitSize (1 :: uint64) - 1
         in case ParseUint_loop (of_nat base) cutoff maxVal 0 s of
              Inl e \<Rightarrow> Inl (NumError ''ParseUint'' s e)
            | Inr n \<Rightarrow> Inr n)
      else Inl (NumError ''ParseUint'' s ErrBase))"

section \<open>Writers and package pgio\<close>

text \<open>
  An \<open>io.Writer\<close> is its \<open>Write\<close> method on a state of the writer: it takes the bytes
  and returns the error (or none) and the new state. The code never looks at the count
  of bytes written, so the model leaves it out. \<open>io.WriteString\<close> writes the bytes of the
  string.
\<close>

type_synonym 'w Writer = "byte list \<Rightarrow> 'w \<Rightarrow> error option \<times> 'w"

definition WriteString :: "'w Writer \<Rightarrow> string \<Rightarrow> 'w \<Rightarrow> error option \<times> 'w" where
  "WriteString w s = w (bytes_of_string s)"

text \<open>A \<open>bytes.Buffer\<close>: \<open>Write\<close> appends and never fails.\<close>

definition Buffer_Write :: "byte list Writer" where
  "Buffer_Write p buf = (None, buf @ p)"

text \<open>
  \<open>binary.BigEndian.PutUint32\<close> and \<open>binary.BigEndian.Uint32\<close> on a slice of four bytes.
\<close>

definition PutUint32 :: "uint32 \<Rightarrow> byte list" where
  "PutUint32 v =
     [ucast (drop_bit 24 v), ucast (drop_bit 16 v), ucast (drop_bit 8 v), ucast v]"

fun BigEndian_Uint32 :: "byte list \<Rightarrow> uint32" where
  "BigEndian_Uint32 [b0, b1, b2, b3] =
     ucast b3 OR push_bit 8 (ucast b2) OR push_bit 16 (ucast b1) OR push_bit 24 (ucast b0)"
| "BigEndian_Uint32 _ = 0"

text \<open>
  Modelled from the spec: \<open>pgio.WriteUint32\<close> is in package pgio, which is not among the
  sources. Section 4.2 gives the binary form: exactly 4 bytes, big-endian, unsigned; the
  function writes them to the writer with one call of \<open>Write\<close>.
\<close>

definition WriteUint32 :: "'w Writer \<Rightarrow> uint32 \<Rightarrow> 'w \<Rightarrow> error option \<times> 'w" where
  "WriteUint32 w n = w (PutUint32 n)"

section \<open>pguint32.go\<close>

text \<open>
  A method with a pointer receiver takes the receiver's value and returns the new one
  next to the error. \<open>None\<close> is the nil error.
\<close>

definition ConvertFrom :: "pguint32 \<Rightarrow> go_value \<Rightarrow> error option \<times> pguint32" where
  "ConvertFrom dst src =
     (case src of
        GoUint32 v \<Rightarrow> (None, \<lparr>Uint = v, Status = Present\<rparr>)
      | _ \<Rightarrow> (Some (Errorf ''cannot convert %v to pguint32'' [src]), dst))"

text \<open>
  \<open>AssignTo\<close> returns the error and the destination after the call. Storing through a
  nil pointer panics.
\<close>

definition AssignTo :: "pguint32 \<Rightarrow> go_value \<Rightarrow> (error option \<times> go_value) outcome" where
  "AssignTo src dst =
     (case dst of
        Ptr Tuint32 v \<Rightarrow>
          if Status src = Present then
            (case v of
               None \<Rightarrow> Panic
             | Some _ \<Rightarrow> Return (None, Ptr Tuint32 (Some (GoUint32 (Uint src)))))
          else
            Return (Some (Errorf ''cannot assign %v into %T''
                            [Ptr Tpguint32 (Some (GoPguint32 src)), dst]), dst)
      | Ptr (Tptr Tuint32) v \<Rightarrow>
          if Status src = Present then
            (case v of
               None \<Rightarrow> Panic
             | Some _ \<Rightarrow>
                 Return (None, Ptr (Tptr Tuint32) (Some (Ptr Tuint32 (Some (GoUint32 (Uint src)))))))
          else
            (case v of
               None \<Rightarrow> Panic
             | Some _ \<Rightarrow> Return (None, Ptr (Tptr Tuint32) (Some (Ptr Tuint32 None))))
      | _ \<Rightarrow> Return (None, dst))"

definition DecodeText :: "pguint32 \<Rightarrow> byte list option \<Rightarrow> error option \<times> pguint32" where
  "DecodeText dst src =
     (case src of
        None \<Rightarrow> (None, \<lparr>Uint = 0, Status = Null\<rparr>)
      | Some bs \<Rightarrow>
          (case ParseUint (string_of_bytes bs) 10 32 of
             Inl err \<Rightarrow> (Some err, dst)
           | Inr n \<Rightarrow> (None, \<lparr>Uint = ucast n, Status = Present\<rparr>)))"

definition DecodeBinary :: "pguint32 \<Rightarrow> byte list option \<Rightarrow> error option \<times> pguint32" where
  "DecodeBinary dst src =
     (case src of
        None \<Rightarrow> (None, \<lparr>Uint = 0, Status = Null\<rparr>)
      | Some bs \<Rightarrow>
          if length bs \<noteq> 4 then
            (Some (Errorf ''invalid length: %v'' [GoInt (of_nat (length bs))]), dst)
          else (None, \<lparr>Uint = BigEndian_Uint32 bs, Status = Present\<rparr>))"

text \<open>
  The encoders return the pair of the source (signals-null, error) and the state of the
  writer after the call.
\<close>

definition EncodeText :: "pguint32 \<Rightarrow> 'w Writer \<Rightarrow> 'w \<Rightarrow> (bool \<times> error option) \<times> 'w" where
  "EncodeText src w st =
     (case Status src of
        Null \<Rightarrow> ((True, None), st)
      | Undefined \<Rightarrow> ((False, Some errUndefined), st)
      | Present \<Rightarrow>
          (let (err, st') = WriteString w (FormatUint10 (ucast (Uint src))) st
           in ((False, err), st')))"

definition EncodeBinary :: "pguint32 \<Rightarrow> 'w Writer \<Rightarrow> 'w \<Rightarrow> (bool \<times> error option) \<times> 'w" where
  "EncodeBinary src w st =
     (case Status src of
        Null \<Rightarrow> ((True, None), st)
      | Undefined \<Rightarrow> ((False, Some errUndefined), st)
      | Present \<Rightarrow>
          (let (err, st') = WriteUint32 w (Uint src) st
           in ((False, err), st')))"

section \<open>Package fmt\<close>

text \<open>
  \<open>strconv.FormatInt(i, 10)\<close>, which \<open>fmt\<close> uses for signed integers: a minus sign
  and the digits of the magnitude.
\<close>

definition FormatInt10 :: "64 word \<Rightarrow> string" where
  "FormatInt10 i = (if i <s 0 then CHR ''-'' # FormatUint10 (- i) else FormatUint10 i)"

text \<open>The verb \<open>%T\<close>: the name of the dynamic type.\<close>

fun type_name :: "go_type \<Rightarrow> string" where
  "type_name Tbool = ''bool''"
| "type_name Tstring = ''string''"
| "type_name Tint = ''int''"
| "type_name Tint32 = ''int32''"
| "type_name Tint64 = ''int64''"
| "type_name Tuint32 = ''uint32''"
| "type_name Tuint64 = ''uint64''"
| "type_name Tpguint32 = ''pgtype.pguint32''"
| "type_name (Tptr t) = CHR ''*'' # type_name t"

definition Sprint_T :: "go_value \<Rightarrow> string" where
  "Sprint_T v = (case TypeOf v of None \<Rightarrow> ''<nil>'' | Some t \<Rightarrow> type_name t)"

text \<open>
  The verb \<open>%v\<close>: the default format of the value. For a struct and for a pointer that
  is not nil, \<open>fmt\<close> prints the number behind each field and the address of the pointee;
  neither the numbers of \<open>Status\<close> nor addresses are fixed by the sources, so that text
  is the parameter \<open>pp\<close>.
\<close>

fun Sprint_v :: "(go_value \<Rightarrow> string) \<Rightarrow> go_value \<Rightarrow> string" where
  "Sprint_v pp GoNil = ''<nil>''"
| "Sprint_v pp (GoBool b) = (if b then ''true'' else ''false'')"
| "Sprint_v pp (GoString s) = s"
| "Sprint_v pp (GoInt i) = FormatInt10 i"
| "Sprint_v pp (GoInt32 i) = FormatInt10 (scast i)"
| "Sprint_v pp (GoInt64 i) = FormatInt10 i"
| "Sprint_v pp (GoUint32 u) = FormatUint10 (ucast u)"
| "Sprint_v pp (GoUint64 u) = FormatUint10 u"
| "Sprint_v pp (GoPguint32 p) = pp (GoPguint32 p)"
| "Sprint_v pp (Ptr t None) = ''<nil>''"
| "Sprint_v pp (Ptr t (Some x)) = pp (Ptr t (Some x))"

text \<open>
  \<open>fmt.Sprintf\<close> for the two verbs the package uses, each taking the next argument;
  every other byte of the format is copied.
\<close>

fun Sprintf :: "(go_value \<Rightarrow> string) \<Rightarrow> string \<Rightarrow> go_value list \<Rightarrow> string" where
  "Sprintf pp (c # d # f) (a # args) =
     (if c = CHR ''%'' \<and> d = CHR ''v'' then Sprint_v pp a @ Sprintf pp f args
      else if c = CHR ''%'' \<and> d = CHR ''T'' then Sprint_T a @ Sprintf pp f args
      else c # Sprintf pp (d # f) (a # args))"
| "Sprintf pp f args = f"

text \<open>The message of an error made by \<open>fmt.Errorf\<close>; other errors are not rendered.\<close>

fun Errorf_message :: "(go_value \<Rightarrow> string) \<Rightarrow> error \<Rightarrow> string option" where
  "Errorf_message pp (Errorf f args) = Some (Sprintf pp f args)"
| "Errorf_message pp _ = None"

section \<open>Notions of the specification\<close>

text \<open>
  Unsigned decimal text: at least one byte, every byte an ASCII digit; its value reads
  the digits in base ten, leading zeros included.
\<close>

definition decimal_digits :: "byte list \<Rightarrow> bool" where
  "decimal_digits bs \<longleftrightarrow> bs \<noteq> [] \<and> list_all (\<lambda>b. 48 \<le> b \<and> b \<le> 57) bs"

definition decimal_value :: "byte list \<Rightarrow> nat" where
  "decimal_value bs = foldl (\<lambda>a b. 10 * a + (unat b - 48)) 0 bs"

text \<open>The big-endian unsigned value of a sequence of bytes.\<close>

definition big_endian_value :: "byte list \<Rightarrow> nat" where
  "big_endian_value bs = foldl (\<lambda>a b. 256 * a + unat b) 0 bs"

text \<open>The same two notions on strings, for the functions of \<open>strconv\<close>.\<close>

definition is_digit :: "char \<Rightarrow> bool" where
  "is_digit c \<longleftrightarrow> 48 \<le> (of_char c :: nat) \<and> (of_char c :: nat) \<le> 57"

fun dec :: "nat \<Rightarrow> string \<Rightarrow> nat" where
  "dec a [] = a"
| "dec a (c # s) = dec (10 * a + (of_char c - 48)) s"

section \<open>The batch pipeline\<close>

text \<open>
  Modelled from the spec: the batch controller, its row iterator, the connection and the
  server are in files of the repository that are not among the sources; only their tests
  (batch_test.go) are. Every definition of this section follows Sections 3 to 8 of the
  specification: the queue items, the server's answer to a pipeline, the cursor, the
  errors, the cancellation token and the connection's liveness flag.
\<close>

datatype OID = VarcharOID | Int4OID

datatype FormatCode = TextFormatCode | BinaryFormatCode

record QueueItem =
  statement :: string
  arguments :: "go_value list"
  argumentTypeHints :: "OID list"
  resultFormats :: "FormatCode list"

text \<open>
  Modelled from the spec: the error kinds of Section 7. \<open>PgError\<close> is the server error
  with its status code, \<open>Canceled\<close> the cancellation error (\<open>context.Canceled\<close> in the
  tests), \<open>ErrDesync\<close> the protocol desynchronisation; \<open>ErrUsage\<close> answers a call that
  is not valid in the state of the batch (Section 3).
\<close>

datatype pgx_error = PgError string | Canceled | ErrUsage | ErrDesync

datatype cell = NullCell | IntCell int | TextCell string

type_synonym row = "cell list"

text \<open>
  Modelled from the spec: what the server does with one statement when it executes it.
  A statement that returns no rows completes with the number of rows affected; a
  statement that returns rows delivers them and completes; a failing statement reports
  a status code, before any result or after the rows it delivered so far.
\<close>

datatype stmt_result = Exec nat | Rows "row list" | Fails "row list option" string

datatype message =
  RowDescription | DataRow row | CommandComplete nat | ErrorResponse string | Skipped
  | ReadyForQuery

fun segment :: "stmt_result \<Rightarrow> message list" where
  "segment (Exec n) = [CommandComplete n]"
| "segment (Rows rs) = RowDescription # map DataRow rs @ [CommandComplete (length rs)]"
| "segment (Fails None c) = [ErrorResponse c]"
| "segment (Fails (Some rs) c) = RowDescription # map DataRow rs @ [ErrorResponse c]"

text \<open>
  Modelled from the spec: the answer to a pipeline (Section 4.4, pipelining and error
  semantics). The statements run in order; after the first failure every later statement
  is skipped, with a skipped status for each, up to the synchronisation marker.
\<close>

fun stream :: "stmt_result list \<Rightarrow> message list" where
  "stream [] = [ReadyForQuery]"
| "stream (Exec n # rest) = segment (Exec n) @ stream rest"
| "stream (Rows rs # rest) = segment (Rows rs) @ stream rest"
| "stream (Fails rs c # rest) =
     segment (Fails rs c) @ map (\<lambda>_. Skipped) rest @ [ReadyForQuery]"

text \<open>
  The server is a parameter: \<open>db qs i\<close> is what it does with statement \<open>i\<close> of the
  pipeline \<open>qs\<close> when it executes it after the statements before.
\<close>

type_synonym pg_server = "QueueItem list \<Rightarrow> nat \<Rightarrow> stmt_result"

definition server :: "pg_server \<Rightarrow> QueueItem list \<Rightarrow> message list" where
  "server db qs = stream (map (db qs) [0..<length qs])"

text \<open>
  Modelled from the spec: the batch of Section 3 with what it borrows. \<open>resultsRead\<close>
  is the cursor, the number of statements whose outcome was read; \<open>err\<close> is the fatal
  error that ended the batch, \<open>server_err\<close> the first server error met; \<open>inbound\<close> is
  the part of the server's answer not yet read from the transport, \<open>alive\<close> the
  connection's liveness flag, \<open>canceled\<close> the state of the cancellation token.
  \<open>rows_open\<close>, \<open>rows_active\<close>, \<open>current\<close> and \<open>rows_err\<close> are the single active
  \<open>ResultRows\<close> the batch owns: open and not active is the state Pending of Section 4.3.
\<close>

record Batch =
  items :: "QueueItem list"
  resultsRead :: nat
  sent :: bool
  closed :: bool
  err :: "pgx_error option"
  server_err :: "pgx_error option"
  rows_open :: bool
  rows_active :: bool
  current :: "row option"
  rows_err :: "pgx_error option"
  inbound :: "message list"
  alive :: bool
  canceled :: bool

definition BeginBatch :: Batch where
  "BeginBatch =
     \<lparr>items = [], resultsRead = 0, sent = False, closed = False, err = None,
      server_err = None, rows_open = False, rows_active = False, current = None,
      rows_err = None, inbound = [], alive = True, canceled = False\<rparr>"

definition IsAlive :: "Batch \<Rightarrow> bool" where
  "IsAlive b = alive b"

definition cancelFn :: "Batch \<Rightarrow> Batch" where
  "cancelFn b = b\<lparr>canceled := True\<rparr>"

text \<open>
  Modelled from the spec: a fatal error (Sections 5 and 7), that is a cancellation or a
  desynchronisation. The first one sticks and the connection is marked dead.
\<close>

definition die :: "pgx_error \<Rightarrow> Batch \<Rightarrow> Batch" where
  "die e b = b\<lparr>err := (if err b = None then Some e else err b), alive := False\<rparr>"

text \<open>
  Modelled from the spec: a server error (Section 7) does not corrupt the connection;
  the batch keeps the first one for \<open>Close\<close>.
\<close>

definition note_server_error :: "string \<Rightarrow> Batch \<Rightarrow> Batch" where
  "note_server_error c b =
     b\<lparr>server_err := (if server_err b = None then Some (PgError c) else server_err b)\<rparr>"

definition Queue :: "QueueItem \<Rightarrow> Batch \<Rightarrow> Batch" where
  "Queue q b = (if sent b then b else b\<lparr>items := items b @ [q]\<rparr>)"

text \<open>
  Modelled from the spec: \<open>Send\<close> (Section 4.4) is valid once. Canceled before the
  transmission it fails and leaves the batch unusable and the connection unharmed;
  otherwise the whole pipeline is transmitted and the server's answer is what the
  transport will deliver.
\<close>

definition Send :: "pg_server \<Rightarrow> Batch \<Rightarrow> pgx_error option \<times> Batch" where
  "Send db b =
     (if sent b then (Some ErrUsage, b)
      else if canceled b then (Some Canceled, b\<lparr>sent := True, err := Some Canceled\<rparr>)
      else (None, b\<lparr>sent := True, inbound := server db (items b)\<rparr>))"

text \<open>
  Reading the outcome of the next statement off the stream: its rows are discarded; it
  completed, failed or was skipped. The stream ending, or the synchronisation marker
  standing where an outcome should, is a desynchronisation.
\<close>

datatype completion = Complete nat | Failed string | SkippedStmt | Desync

fun read_result :: "message list \<Rightarrow> completion \<times> message list" where
  "read_result [] = (Desync, [])"
| "read_result (RowDescription # ms) = read_result ms"
| "read_result (DataRow r # ms) = read_result ms"
| "read_result (CommandComplete n # ms) = (Complete n, ms)"
| "read_result (ErrorResponse c # ms) = (Failed c, ms)"
| "read_result (Skipped # ms) = (SkippedStmt, ms)"
| "read_result (ReadyForQuery # ms) = (Desync, ReadyForQuery # ms)"

text \<open>
  Modelled from the spec: what every result accessor checks first (Sections 3, 4.4
  and 5): the batch was sent and is not closed; a fatal error met before is returned
  again; a cancellation is observed, which is fatal; no \<open>ResultRows\<close> is still open; an
  item is left to consume.
\<close>

definition accessor_guard :: "Batch \<Rightarrow> pgx_error option \<times> Batch" where
  "accessor_guard b =
     (if \<not> sent b \<or> closed b then (Some ErrUsage, b)
      else case err b of
        Some e \<Rightarrow> (Some e, b)
      | None \<Rightarrow>
          if canceled b then (Some Canceled, die Canceled b)
          else if rows_open b \<or> length (items b) \<le> resultsRead b then (Some ErrUsage, b)
          else (None, b))"

text \<open>
  Modelled from the spec: \<open>ExecResults\<close> (Section 4.4) reads the outcome of the next
  item and advances the cursor by one. The error of a failed statement is returned by
  this accessor and leaves the connection alive; a skipped statement reports no rows
  affected and no error.
\<close>

definition ExecResults :: "Batch \<Rightarrow> (nat \<times> pgx_error option) \<times> Batch" where
  "ExecResults b =
     (case accessor_guard b of
        (Some e, b') \<Rightarrow> ((0, Some e), b')
      | (None, b') \<Rightarrow>
          (case read_result (inbound b') of
             (Complete n, ms) \<Rightarrow>
               ((n, None), b'\<lparr>inbound := ms, resultsRead := Suc (resultsRead b')\<rparr>)
           | (SkippedStmt, ms) \<Rightarrow>
               ((0, None), b'\<lparr>inbound := ms, resultsRead := Suc (resultsRead b')\<rparr>)
           | (Failed c, ms) \<Rightarrow>
               ((0, Some (PgError c)),
                note_server_error c (b'\<lparr>inbound := ms, resultsRead := Suc (resultsRead b')\<rparr>))
           | (Desync, ms) \<Rightarrow>
               ((0, Some ErrDesync), die ErrDesync (b'\<lparr>inbound := ms\<rparr>))))"

text \<open>
  Modelled from the spec: \<open>QueryResults\<close> (Section 4.4) hands out the rows without
  reading anything; the rows are fetched by \<open>Next\<close>. \<open>QueryRowResults\<close> is the same
  accessor.
\<close>

definition QueryResults :: "Batch \<Rightarrow> pgx_error option \<times> Batch" where
  "QueryResults b =
     (case accessor_guard b of
        (Some e, b') \<Rightarrow> (Some e, b')
      | (None, b') \<Rightarrow>
          (None, b'\<lparr>rows_open := True, rows_active := False, current := None,
                     rows_err := None\<rparr>))"

definition QueryRowResults :: "Batch \<Rightarrow> pgx_error option \<times> Batch" where
  "QueryRowResults b = QueryResults b"

text \<open>
  Modelled from the spec: fetching for the row iterator of Section 4.3. The flag says
  whether the rows are active. Pending rows belong to the next statement that returns
  rows: the completion of a statement that returns none is passed over, as in the
  scenario of Section 8, where two calls of \<open>ExecResults\<close> and one of \<open>QueryResults\<close>
  serve three inserts and a select. The result is a row, the end of the rows, a server
  error or a desynchronisation, with the number of outcomes read on the way.
\<close>

datatype fetched = Row row | End | Failure string | Broken

fun fetch_row :: "bool \<Rightarrow> message list \<Rightarrow> (fetched \<times> nat) \<times> message list" where
  "fetch_row a [] = ((Broken, 0), [])"
| "fetch_row a (RowDescription # ms) = fetch_row True ms"
| "fetch_row a (DataRow r # ms) = ((Row r, 0), ms)"
| "fetch_row a (CommandComplete n # ms) =
     (if a then ((End, 1), ms)
      else case fetch_row False ms of ((f, k), ms') \<Rightarrow> ((f, Suc k), ms'))"
| "fetch_row a (ErrorResponse c # ms) = ((Failure c, 1), ms)"
| "fetch_row a (Skipped # ms) = ((End, 1), ms)"
| "fetch_row a (ReadyForQuery # ms) = ((Broken, 0), ReadyForQuery # ms)"

text \<open>The same with every row discarded, for closing the rows.\<close>

fun discard_rows :: "bool \<Rightarrow> message list \<Rightarrow> (fetched \<times> nat) \<times> message list" where
  "discard_rows a [] = ((Broken, 0), [])"
| "discard_rows a (RowDescription # ms) = discard_rows True ms"
| "discard_rows a (DataRow r # ms) = discard_rows a ms"
| "discard_rows a (CommandComplete n # ms) =
     (if a then ((End, 1), ms)
      else case discard_rows False ms of ((f, k), ms') \<Rightarrow> ((f, Suc k), ms'))"
| "discard_rows a (ErrorResponse c # ms) = ((Failure c, 1), ms)"
| "discard_rows a (Skipped # ms) = ((End, 1), ms)"
| "discard_rows a (ReadyForQuery # ms) = ((Broken, 0), ReadyForQuery # ms)"

text \<open>
  Modelled from the spec: how the rows end (Section 4.3). A server error is kept by
  \<open>Err\<close> and by the batch and leaves the connection alive; a desynchronisation is fatal.
\<close>

fun rows_end :: "fetched \<Rightarrow> Batch \<Rightarrow> Batch" where
  "rows_end (Failure c) b =
     note_server_error c (b\<lparr>rows_open := False, current := None, rows_err := Some (PgError c)\<rparr>)"
| "rows_end Broken b =
     die ErrDesync (b\<lparr>rows_open := False, current := None, rows_err := Some ErrDesync\<rparr>)"
| "rows_end _ b = b\<lparr>rows_open := False, current := None\<rparr>"

text \<open>
  Modelled from the spec: \<open>Next\<close>, \<open>Scan\<close>, \<open>Err\<close> and \<open>Close\<close> of the rows
  (Section 4.3). \<open>Next\<close> observes a cancellation, which is fatal.
\<close>

definition Next :: "Batch \<Rightarrow> bool \<times> Batch" where
  "Next b =
     (if \<not> rows_open b then (False, b)
      else if canceled b then
        (False, die Canceled (b\<lparr>rows_open := False, current := None, rows_err := Some Canceled\<rparr>))
      else case fetch_row (rows_active b) (inbound b) of
        ((Row r, k), ms) \<Rightarrow>
          (True, b\<lparr>inbound := ms, resultsRead := resultsRead b + k, rows_active := True,
                   current := Some r\<rparr>)
      | ((f, k), ms) \<Rightarrow>
          (False, rows_end f (b\<lparr>inbound := ms, resultsRead := resultsRead b + k\<rparr>)))"

text \<open>
  \<open>Scan\<close> with \<open>k\<close> destinations gives the columns of the current row; without a
  current row, or with a row of another width, it fails.
\<close>

definition Scan :: "Batch \<Rightarrow> nat \<Rightarrow> pgx_error + row" where
  "Scan b k =
     (case current b of
        None \<Rightarrow> Inl ErrUsage
      | Some r \<Rightarrow> if length r = k then Inr r else Inl ErrUsage)"

definition Rows_Err :: "Batch \<Rightarrow> pgx_error option" where
  "Rows_Err b = rows_err b"

definition Rows_Close :: "Batch \<Rightarrow> Batch" where
  "Rows_Close b =
     (if \<not> rows_open b then b
      else case discard_rows (rows_active b) (inbound b) of
        ((f, k), ms) \<Rightarrow> rows_end f (b\<lparr>inbound := ms, resultsRead := resultsRead b + k\<rparr>))"

text \<open>
  \<open>Scan\<close> called on the result of \<open>QueryRowResults\<close>: the first row is fetched and
  decoded and the rows are closed.
\<close>

definition Row_Scan :: "Batch \<Rightarrow> nat \<Rightarrow> (pgx_error + row) \<times> Batch" where
  "Row_Scan b k =
     (case Next b of
        (True, b') \<Rightarrow> (Scan b' k, Rows_Close b')
      | (False, b') \<Rightarrow>
          (Inl (case rows_err b' of Some e \<Rightarrow> e | None \<Rightarrow> ErrUsage), b'))"

text \<open>
  Draining \<open>n\<close> statements: each outcome is read and discarded, the first server error
  met is kept and the statements after it are still drained. The flag is false when the
  stream broke.
\<close>

fun drain :: "nat \<Rightarrow> message list \<Rightarrow> (string option \<times> bool) \<times> message list" where
  "drain 0 ms = ((None, True), ms)"
| "drain (Suc n) ms =
     (case read_result ms of
        (Desync, ms') \<Rightarrow> ((None, False), ms')
      | (Failed c, ms') \<Rightarrow> (case drain n ms' of ((e, ok), ms'') \<Rightarrow> ((Some c, ok), ms''))
      | (_, ms') \<Rightarrow> drain n ms')"

text \<open>The error of the batch: the fatal one, or else the first server error.\<close>

definition batch_error :: "Batch \<Rightarrow> pgx_error option" where
  "batch_error b = (case err b of Some e \<Rightarrow> Some e | None \<Rightarrow> server_err b)"

text \<open>
  Modelled from the spec: \<open>Close\<close> (Section 4.4) is valid once the batch was sent and
  is idempotent. After a fatal error or a cancellation nothing can be drained: that
  error is returned and a cancellation kills the connection. Otherwise the open rows and
  every unconsumed statement are drained and the synchronisation marker is read; the
  first server error of the batch is returned, and the connection stays alive unless the
  stream broke.
\<close>

definition Close :: "Batch \<Rightarrow> pgx_error option \<times> Batch" where
  "Close b =
     (if \<not> sent b then (Some ErrUsage, b)
      else if closed b then (batch_error b, b)
      else if err b \<noteq> None then (err b, b\<lparr>closed := True\<rparr>)
      else if canceled b then (Some Canceled, (die Canceled b)\<lparr>closed := True\<rparr>)
      else
        let b1 = Rows_Close b in
        if err b1 \<noteq> None then (err b1, b1\<lparr>closed := True\<rparr>)
        else
          case drain (length (items b1) - resultsRead b1) (inbound b1) of
            ((e, ok), ms) \<Rightarrow>
              let b2 = (case e of Some c \<Rightarrow> note_server_error c b1 | None \<Rightarrow> b1)
                         \<lparr>resultsRead := length (items b1), closed := True\<rparr>
              in case ms of
                   ReadyForQuery # r \<Rightarrow>
                     if ok then (server_err b2, b2\<lparr>inbound := r\<rparr>)
                     else (Some ErrDesync, die ErrDesync (b2\<lparr>inbound := ms\<rparr>))
                 | _ \<Rightarrow> (Some ErrDesync, die ErrDesync (b2\<lparr>inbound := ms\<rparr>)))"

subsection \<open>Sequences of calls\<close>

text \<open>Queueing a list of items on a new batch.\<close>

definition queue_all :: "QueueItem list \<Rightarrow> Batch" where
  "queue_all qs = foldl (\<lambda>b q. Queue q b) BeginBatch qs"



text \<open>Any call a client can make on the batch, its rows, the token and the connection.\<close>

datatype call =
  CallQueue QueueItem | CallSend | CallCancel | CallExecResults | CallQueryResults
  | CallNext | CallRowsClose | CallClose

fun apply_call :: "pg_server \<Rightarrow> Batch \<Rightarrow> call \<Rightarrow> Batch" where
  "apply_call db b (CallQueue q) = Queue q b"
| "apply_call db b CallSend = snd (Send db b)"
| "apply_call db b CallCancel = cancelFn b"
| "apply_call db b CallExecResults = snd (ExecResults b)"
| "apply_call db b CallQueryResults = snd (QueryResults b)"
| "apply_call db b CallNext = snd (Next b)"
| "apply_call db b CallRowsClose = Rows_Close b"
| "apply_call db b CallClose = snd (Close b)"

definition run :: "pg_server \<Rightarrow> call list \<Rightarrow> Batch \<Rightarrow> Batch" where
  "run db cs b = foldl (apply_call db) b cs"

subsection \<open>The tests of batch_test.go\<close>

text \<open>
  A test is the list of the failures it reports, in order; \<open>t.Fatal\<close> ends the test.
  The server is a parameter of the test. The helper \<open>ensureConnValid\<close> is not among
  the sources; it stands for the liveness check here.

  \<open>postgres\<close> is what a PostgreSQL server does with the statements of these tests on
  the table \<open>ledger\<close>, whose rows are a description and an amount and whose ids count
  from 1: the failing select delivers the rows 0 to 4 and then fails with a division by
  zero (code 22012). \<open>test_server\<close> runs a pipeline on the empty table.
\<close>

type_synonym ledger = "(string \<times> int) list"

definition postgres :: "ledger \<Rightarrow> QueueItem \<Rightarrow> stmt_result \<times> ledger" where
  "postgres l q =
     (if statement q = ''insert into ledger(description, amount) values($1, $2)'' then
        (case arguments q of
           [GoString d, GoInt a] \<Rightarrow> (Exec 1, l @ [(d, sint a)])
         | _ \<Rightarrow> (Fails None ''08P01'', l))
      else if statement q = ''select id, description, amount from ledger order by id'' then
        (Rows (map (\<lambda>(i, d, a). [IntCell (int i), TextCell d, IntCell a]) (enumerate 1 l)), l)
      else if statement q = ''select sum(amount) from ledger'' then
        (Rows [[if l = [] then NullCell else IntCell (sum_list (map snd l))]], l)
      else if statement q = ''select n from generate_series(0,5) n'' then
        (Rows [[IntCell 0], [IntCell 1], [IntCell 2], [IntCell 3], [IntCell 4], [IntCell 5]], l)
      else if statement q = ''select n from generate_series(0,5) n where 100/(5-n) > 0'' then
        (Fails (Some [[IntCell 0], [IntCell 1], [IntCell 2], [IntCell 3], [IntCell 4]]) ''22012'', l)
      else if statement q = ''select pg_sleep(2)'' then (Rows [[TextCell []]], l)
      else (Fails None ''42601'', l))"

definition test_server :: pg_server where
  "test_server qs i =
     (case drop i qs of
        [] \<Rightarrow> Exec 0
      | q # _ \<Rightarrow> fst (postgres (foldl (\<lambda>l q. snd (postgres l q)) [] (take i qs)) q))"

definition insert_ledger :: "string \<Rightarrow> int \<Rightarrow> QueueItem" where
  "insert_ledger d a =
     \<lparr>statement = ''insert into ledger(description, amount) values($1, $2)'',
      arguments = [GoString d, GoInt (of_int a)],
      argumentTypeHints = [VarcharOID, Int4OID],
      resultFormats = []\<rparr>"

definition select_ledger :: QueueItem where
  "select_ledger =
     \<lparr>statement = ''select id, description, amount from ledger order by id'',
      arguments = [], argumentTypeHints = [],
      resultFormats = [BinaryFormatCode, TextFormatCode, BinaryFormatCode]\<rparr>"

definition select_sum :: QueueItem where
  "select_sum =
     \<lparr>statement = ''select sum(amount) from ledger'',
      arguments = [], argumentTypeHints = [], resultFormats = [BinaryFormatCode]\<rparr>"

definition select_sleep :: QueueItem where
  "select_sleep =
     \<lparr>statement = ''select pg_sleep(2)'', arguments = [], argumentTypeHints = [],
      resultFormats = []\<rparr>"

definition select_failing :: QueueItem where
  "select_failing =
     \<lparr>statement = ''select n from generate_series(0,5) n where 100/(5-n) > 0'',
      arguments = [], argumentTypeHints = [], resultFormats = [BinaryFormatCode]\<rparr>"

definition select_series :: QueueItem where
  "select_series =
     \<lparr>statement = ''select n from generate_series(0,5) n'',
      arguments = [], argumentTypeHints = [], resultFormats = [BinaryFormatCode]\<rparr>"

text \<open>
  The three blocks of \<open>TestConnBeginBatch\<close> that expect a row of the ledger: the flag
  says that the test ended with \<open>t.Fatal\<close>.
\<close>

definition expect_ledger_row ::
    "Batch \<Rightarrow> int \<Rightarrow> string \<Rightarrow> int \<Rightarrow> (string list \<times> bool) \<times> Batch" where
  "expect_ledger_row b i d a =
     (case Next b of
        (False, b') \<Rightarrow> (([''expected a row to be available''], True), b')
      | (True, b') \<Rightarrow>
          (case Scan b' 3 of
             Inr [c1, c2, c3] \<Rightarrow>
               (((if c1 \<noteq> IntCell i then [''id => %v, want %v''] else []) @
                 (if c2 \<noteq> TextCell d then [''description => %v, want %v''] else []) @
                 (if c3 \<noteq> IntCell a then [''amount => %v, want %v''] else []), False), b')
           | _ \<Rightarrow> (([''Scan failed''], True), b')))"

definition TestConnBeginBatch :: "pg_server \<Rightarrow> string list" where
  "TestConnBeginBatch db =
     (let batch = BeginBatch;
          batch = Queue (insert_ledger ''q1'' 1) batch;
          batch = Queue (insert_ledger ''q2'' 2) batch;
          batch = Queue (insert_ledger ''q3'' 3) batch;
          batch = Queue select_ledger batch;
          batch = Queue select_sum batch;
          (err, batch) = Send db batch
      in if err \<noteq> None then [''Send failed'']
         else
           let ((ct, err), batch) = ExecResults batch;
               log1 = (if err \<noteq> None then [''ExecResults failed''] else []) @
                      (if ct \<noteq> 1 then [''ct.RowsAffected() => %v, want %v''] else []);
               ((ct, err), batch) = ExecResults batch;
               log2 = (if err \<noteq> None then [''ExecResults failed''] else []) @
                      (if ct \<noteq> 1 then [''ct.RowsAffected() => %v, want %v''] else []);
               (err, batch) = QueryResults batch;
               log3 = log1 @ log2 @ (if err \<noteq> None then [''QueryResults failed''] else []);
               ((l1, fatal), batch) = expect_ledger_row batch 1 ''q1'' 1
           in if fatal then log3 @ l1
              else
                let ((l2, fatal), batch) = expect_ledger_row batch 2 ''q2'' 2
                in if fatal then log3 @ l1 @ l2
                   else
                     let ((l3, fatal), batch) = expect_ledger_row batch 3 ''q3'' 3;
                         log4 = log3 @ l1 @ l2 @ l3
                     in if fatal then log4
                        else
                          let (got, batch) = Next batch
                          in if got then log4 @ [''did not expect a row to be available'']
                             else if Rows_Err batch \<noteq> None then log4 @ [''rows.Err()'']
                             else
                               let (err, batch) = QueryRowResults batch;
                                   (r, batch) = Row_Scan batch 1;
                                   log5 = (case r of
                                             Inl e \<Rightarrow> [''Scan failed'', ''amount => %v, want %v'']
                                           | Inr cs \<Rightarrow>
                                               if cs \<noteq> [IntCell 6]
                                               then [''amount => %v, want %v''] else []);
                                   (err, batch) = Close batch
                               in if err \<noteq> None then log4 @ log5 @ [''Close failed'']
                                  else log4 @ log5 @
                                       (if IsAlive batch then [] else [''conn is not valid'']))"

definition TestConnBeginBatchContextCancelBeforeExecResults :: "pg_server \<Rightarrow> string list" where
  "TestConnBeginBatchContextCancelBeforeExecResults db =
     (let batch = BeginBatch;
          batch = Queue (insert_ledger ''q1'' 1) batch;
          batch = Queue select_sleep batch;
          (err, batch) = Send db batch
      in if err \<noteq> None then [''Send failed'']
         else
           let batch = cancelFn batch;
               ((ct, err), batch) = ExecResults batch
           in (if err \<noteq> Some Canceled then [''err => %v, want %v''] else []) @
              (if IsAlive batch then [''conn should be dead, but was alive''] else []))"

definition TestConnBeginBatchContextCancelBeforeQueryResults :: "pg_server \<Rightarrow> string list" where
  "TestConnBeginBatchContextCancelBeforeQueryResults db =
     (let batch = BeginBatch;
          batch = Queue select_sleep batch;
          batch = Queue select_sleep batch;
          (err, batch) = Send db batch
      in if err \<noteq> None then [''Send failed'']
         else
           let batch = cancelFn batch;
               (err, batch) = QueryResults batch
           in (if err \<noteq> Some Canceled then [''err => %v, want %v''] else []) @
              (if IsAlive batch then [''conn should be dead, but was alive''] else []))"

definition TestConnBeginBatchContextCancelBeforeFinish :: "pg_server \<Rightarrow> string list" where
  "TestConnBeginBatchContextCancelBeforeFinish db =
     (let batch = BeginBatch;
          batch = Queue select_sleep batch;
          batch = Queue select_sleep batch;
          (err, batch) = Send db batch
      in if err \<noteq> None then [''Send failed'']
         else
           let batch = cancelFn batch;
               (err, batch) = Close batch
           in (if err \<noteq> Some Canceled then [''err => %v, want %v''] else []) @
              (if IsAlive batch then [''conn should be dead, but was alive''] else []))"

text \<open>
  The loops over the rows of a series: \<open>Scan\<close> into one \<open>int\<close>, which stays 0 when
  \<open>Scan\<close> fails, and the comparison with the loop counter. \<open>scan_rows\<close> runs while
  \<open>Next\<close> returns true, \<open>scan_n\<close> a fixed number of times.
\<close>

definition scan_int :: "Batch \<Rightarrow> int \<Rightarrow> string list" where
  "scan_int b i =
     (case Scan b 1 of
        Inr [IntCell n] \<Rightarrow> (if n \<noteq> i then [''n => %v, want %v''] else [])
      | _ \<Rightarrow> [''Scan failed''] @ (if 0 \<noteq> i then [''n => %v, want %v''] else []))"

function scan_rows :: "int \<Rightarrow> Batch \<Rightarrow> string list \<times> Batch" where
  "scan_rows i b =
     (case Next b of
        (False, b') \<Rightarrow> ([], b')
      | (True, b') \<Rightarrow>
          (case scan_rows (i + 1) b' of (log, b'') \<Rightarrow> (scan_int b' i @ log, b'')))"
  by pat_completeness auto
termination
proof -
  have shorter: "length ms' < length ms" if "fetch_row a ms = ((Row r, k), ms')" for a ms r k ms'
    using that
    by (induction a ms arbitrary: k rule: fetch_row.induct)
       (auto split: if_splits prod.splits)
  show ?thesis
    by (relation "measure (\<lambda>(i, b). length (inbound b))")
       (auto simp add: Next_def split: if_splits prod.splits fetched.splits dest: shorter)
qed

declare scan_rows.simps [simp del]

fun scan_n :: "nat \<Rightarrow> int \<Rightarrow> Batch \<Rightarrow> string list \<times> Batch" where
  "scan_n 0 i b = ([], b)"
| "scan_n (Suc m) i b =
     (case Next b of
        (got, b') \<Rightarrow>
          (case scan_n m (i + 1) b' of
             (log, b'') \<Rightarrow>
               ((if got then [] else [''expected a row to be available'']) @
                scan_int b' i @ log, b'')))"

definition TestConnBeginBatchCloseRowsPartiallyRead :: "pg_server \<Rightarrow> string list" where
  "TestConnBeginBatchCloseRowsPartiallyRead db =
     (let batch = BeginBatch;
          batch = Queue select_series batch;
          batch = Queue select_series batch;
          (err, batch) = Send db batch
      in if err \<noteq> None then [''Send failed'']
         else
           let (err, batch) = QueryResults batch;
               log1 = (if err \<noteq> None then [''QueryResults failed''] else []);
               (log2, batch) = scan_n 3 0 batch;
               batch = Rows_Close batch;
               (err, batch) = QueryResults batch;
               log3 = (if err \<noteq> None then [''QueryResults failed''] else []);
               (log4, batch) = scan_rows 0 batch;
               log5 = (if Rows_Err batch \<noteq> None then [''rows.Err()''] else []);
               (err, batch) = Close batch
           in if err \<noteq> None then log1 @ log2 @ log3 @ log4 @ log5 @ [''Close failed'']
              else log1 @ log2 @ log3 @ log4 @ log5 @
                   (if IsAlive batch then [] else [''conn is not valid'']))"

definition TestConnBeginBatchQueryError :: "pg_server \<Rightarrow> string list" where
  "TestConnBeginBatchQueryError db =
     (let batch = BeginBatch;
          batch = Queue select_failing batch;
          batch = Queue select_series batch;
          (err, batch) = Send db batch
      in if err \<noteq> None then [''Send failed'']
         else
           let (err, batch) = QueryResults batch;
               log1 = (if err \<noteq> None then [''QueryResults failed''] else []);
               (log2, batch) = scan_rows 0 batch;
               log3 = (if Rows_Err batch \<noteq> Some (PgError ''22012'')
                         then [''rows.Err() => %v, want error code %v''] else []);
               (err, batch) = Close batch;
               log4 = (if err \<noteq> Some (PgError ''22012'')
                         then [''rows.Err() => %v, want error code %v''] else [])
           in log1 @ log2 @ log3 @ log4 @
              (if IsAlive batch then [''conn should be dead, but was alive''] else []))"

subsection \<open>Notions for the proofs\<close>








section \<open>Lemmas on strconv and encoding/binary\<close>

lemma unat_of_char_byte: "unat (of_char c :: byte) = of_char c"
proof -
  have "unat (of_nat (of_char c) :: byte) = of_char c mod 256"
    by (simp add: unat_of_nat)
  then show ?thesis by (simp add: of_nat_of_char)
qed

lemma digit_value_digit:
  assumes "is_digit c"
  shows "\<exists>v. digit_value c = Some v \<and> unat v = of_char c - 48 \<and> v < 10"
proof -
  let ?d = "of_char c :: byte"
  have u: "unat ?d = of_char c" by (rule unat_of_char_byte)
  from assms have "48 \<le> unat ?d" "unat ?d \<le> 57" by (simp_all add: is_digit_def u)
  then have le: "48 \<le> ?d" "?d \<le> 57" by (simp_all add: word_le_nat_alt)
  then have dv: "digit_value c = Some (?d - 48)" by (simp add: digit_value_def)
  have "unat (?d - 48) = unat ?d - 48" using le by (simp add: unat_sub)
  moreover have "?d - 48 < 10" using le by unat_arith
  ultimately show ?thesis using dv u by simp
qed

lemma digit_value_other:
  assumes "\<not> is_digit c"
  shows "digit_value c = None \<or> (\<exists>v. digit_value c = Some v \<and> 10 \<le> v)"
proof -
  let ?d = "of_char c :: byte"
  have u: "unat ?d = of_char c" by (rule unat_of_char_byte)
  from assms have n: "\<not> (48 \<le> ?d \<and> ?d \<le> 57)" by (simp add: is_digit_def u [symmetric] word_le_nat_alt)
  have a: "97 \<le> ?d \<Longrightarrow> ?d \<le> 122 \<Longrightarrow> 10 \<le> ?d - 97 + 10" by unat_arith
  have b: "65 \<le> ?d \<Longrightarrow> ?d \<le> 90 \<Longrightarrow> 10 \<le> ?d - 65 + 10" by unat_arith
  show ?thesis using n a b by (auto simp add: digit_value_def Let_def)
qed


lemma dec_ge: "a \<le> dec a s"
proof (induction s arbitrary: a)
  case Nil
  show ?case by simp
next
  case (Cons c s)
  have "a \<le> 10 * a + (of_char c - 48)" by simp
  also have "\<dots> \<le> dec (10 * a + (of_char c - 48)) s" by (rule Cons.IH)
  finally show ?case by simp
qed


lemma loop_step_arith:
  fixes n :: uint64 and v :: byte
  assumes n: "unat n < 2 ^ 32" and v: "v < 10"
  shows "\<not> ((- 1 :: uint64) div 10 + 1) \<le> n"
    and "unat (n * 10 + ucast v) = 10 * unat n + unat v"
    and "\<not> n * 10 + ucast v < n * 10"
    and "(push_bit 32 (1 :: uint64) - 1) < n * 10 + ucast v \<longleftrightarrow> 2 ^ 32 \<le> 10 * unat n + unat v"
proof -
  have vv: "unat v < 10" using v by (simp add: word_less_nat_alt)
  have uv: "unat (ucast v :: uint64) = unat v"
    using vv by (simp add: unsigned_ucast_eq take_bit_nat_eq_self)
  have c: "unat ((- 1 :: uint64) div 10 + 1) = 1844674407370955162" by simp
  show "\<not> ((- 1 :: uint64) div 10 + 1) \<le> n" using n unfolding word_le_nat_alt c by simp
  have m: "unat (n * 10) = 10 * unat n"
    using n by (simp add: unat_word_ariths)
  show s: "unat (n * 10 + ucast v) = 10 * unat n + unat v"
    using n vv by (simp add: unat_word_ariths uv)
  show "\<not> n * 10 + ucast v < n * 10"
    unfolding word_less_nat_alt s m by simp
  have mv: "unat (push_bit 32 (1 :: uint64) - 1) = 2 ^ 32 - 1" by simp
  show "(push_bit 32 (1 :: uint64) - 1) < n * 10 + ucast v \<longleftrightarrow> 2 ^ 32 \<le> 10 * unat n + unat v"
    unfolding word_less_nat_alt s mv by auto
qed


lemma ParseUint_loop_decimal:
  assumes "unat n < 2 ^ 32"
  shows "ParseUint_loop 10 ((- 1 :: uint64) div 10 + 1) (push_bit 32 (1 :: uint64) - 1) n s = Inr m \<longleftrightarrow>
           list_all is_digit s \<and> dec (unat n) s < 2 ^ 32 \<and> m = of_nat (dec (unat n) s)"
  using assms
proof (induction s arbitrary: n)
  case Nil
  then show ?case by auto
next
  case (Cons c s)
  show ?case
  proof (cases "is_digit c")
    case False
    from digit_value_other [OF False]
    have "\<exists>e. ParseUint_loop 10 ((- 1 :: uint64) div 10 + 1) (push_bit 32 (1 :: uint64) - 1) n (c # s) = Inl e"
      by (auto simp add: word_le_nat_alt)
    with False show ?thesis by auto
  next
    case True
    from digit_value_digit [OF True] obtain v
      where dv: "digit_value c = Some v" and uv: "unat v = of_char c - 48" and v: "v < 10"
      by blast
    note ar = loop_step_arith [OF Cons.prems v]
    have nb: "\<not> (10 :: byte) \<le> v" using v by simp
    let ?n1 = "n * 10 + ucast v"
    show ?thesis
    proof (cases "2 ^ 32 \<le> 10 * unat n + unat v")
      case big: True
      then have "ParseUint_loop 10 ((- 1 :: uint64) div 10 + 1) (push_bit 32 (1 :: uint64) - 1) n (c # s) = Inl ErrRange"
        using dv nb ar by (simp add: Let_def)
      moreover have "10 * unat n + unat v \<le> dec (10 * unat n + unat v) s" by (rule dec_ge)
      ultimately show ?thesis using big uv by auto
    next
      case small: False
      then have n1: "unat ?n1 < 2 ^ 32" using ar(2) by simp
      have "ParseUint_loop 10 ((- 1 :: uint64) div 10 + 1) (push_bit 32 (1 :: uint64) - 1) n (c # s) = ParseUint_loop 10 ((- 1 :: uint64) div 10 + 1) (push_bit 32 (1 :: uint64) - 1) ?n1 s"
        using dv nb ar small by (simp add: Let_def)
      then show ?thesis using Cons.IH [OF n1] True ar(2) uv by simp
    qed
  qed
qed


lemma ParseUint_10_32:
  "ParseUint s 10 32 = Inr m \<longleftrightarrow>
     s \<noteq> [] \<and> list_all is_digit s \<and> dec 0 s < 2 ^ 32 \<and> m = of_nat (dec 0 s)"
proof (cases "s = []")
  case True
  then show ?thesis by (simp add: ParseUint_def)
next
  case False
  have "unat (0 :: uint64) < 2 ^ 32" by simp
  note l = ParseUint_loop_decimal [OF this, of s m]
  have "ParseUint s 10 32 = Inr m \<longleftrightarrow> ParseUint_loop 10 ((- 1 :: uint64) div 10 + 1) (push_bit 32 (1 :: uint64) - 1) 0 s = Inr m"
    using False by (simp add: ParseUint_def Let_def split: sum.splits)
  then show ?thesis using l False by simp
qed

lemma ParseUint_10_32_error:
  "ParseUint s 10 32 = Inl e \<Longrightarrow> \<exists>k. e = NumError ''ParseUint'' s k"
  by (auto simp add: ParseUint_def Let_def split: sum.splits if_splits)


lemma unat_byte_mod_256: "unat b mod 256 = unat b" for b :: byte
proof -
  have "unat b < 256" using unsigned_less [of b] by simp
  then show ?thesis by simp
qed

lemma is_digit_string_of_bytes:
  "list_all is_digit (string_of_bytes bs) \<longleftrightarrow> list_all (\<lambda>b. 48 \<le> b \<and> b \<le> 57) bs"
  by (induction bs)
     (simp_all add: string_of_bytes_def is_digit_def unat_byte_mod_256 word_le_nat_alt)

lemma dec_string_of_bytes:
  "dec a (string_of_bytes bs) = foldl (\<lambda>a b. 10 * a + (unat b - 48)) a bs"
  by (induction bs arbitrary: a) (simp_all add: string_of_bytes_def unat_byte_mod_256)

lemma ParseUint_bytes:
  "ParseUint (string_of_bytes bs) 10 32 = Inr m \<longleftrightarrow>
     decimal_digits bs \<and> decimal_value bs < 2 ^ 32 \<and> m = of_nat (decimal_value bs)"
  unfolding ParseUint_10_32 is_digit_string_of_bytes dec_string_of_bytes
    decimal_digits_def decimal_value_def
  by (simp add: string_of_bytes_def)

lemma bytes_of_string_of_bytes: "string_of_bytes (bytes_of_string s) = s"
  by (induction s) (simp_all add: string_of_bytes_def bytes_of_string_def unat_of_char_byte)

lemma digit_char_digit:
  assumes "u < 10"
  shows "is_digit (digit_char u)" and "of_char (digit_char u) - 48 = unat u"
proof -
  have "unat u < 10" using assms by (simp add: word_less_nat_alt)
  then show "is_digit (digit_char u)" and "of_char (digit_char u) - 48 = unat u"
    by (simp_all add: is_digit_def digit_char_def)
qed

lemma dec_append: "dec a (s @ t) = dec (dec a s) t"
  by (induction s arbitrary: a) simp_all

lemma formatBits_digits:
  "\<exists>s. formatBits u a = s @ a \<and> s \<noteq> [] \<and> list_all is_digit s \<and> dec 0 s = unat u"
proof (induction u a rule: formatBits.induct)
  case (1 u a)
  show ?case
  proof (cases "10 \<le> u")
    case False
    then have "u < 10" by simp
    from digit_char_digit [OF this] False show ?thesis
      by (subst formatBits.simps) (simp add: exI [of _ "[digit_char u]"])
  next
    case True
    let ?r = "u - (u div 10) * 10"
    have r: "?r < 10" and ur: "unat ?r = unat u mod 10"
      by (simp_all add: word_less_nat_alt unat_sub_if' unat_div unat_word_ariths
                        minus_mult_div_eq_mod mult.commute)
    from "1.IH" [OF True] obtain s where s: "formatBits (u div 10) (digit_char ?r # a) = s @ digit_char ?r # a"
      "s \<noteq> []" "list_all is_digit s" "dec 0 s = unat (u div 10)" by blast
    have "formatBits u a = (s @ [digit_char ?r]) @ a"
      using True s(1) by (subst formatBits.simps) simp
    moreover have "list_all is_digit (s @ [digit_char ?r])"
      using s(3) digit_char_digit(1) [OF r] by simp
    moreover have "dec 0 (s @ [digit_char ?r]) = unat u"
      using s(4) digit_char_digit(2) [OF r] ur by (simp add: dec_append unat_div)
    ultimately show ?thesis by blast
  qed
qed


lemma BigEndian_Uint32_sum:
  fixes b0 b1 b2 b3 :: byte
  shows "BigEndian_Uint32 [b0, b1, b2, b3] =
    ucast b3 + (push_bit 8 (ucast b2) + (push_bit 16 (ucast b1) + push_bit 24 (ucast b0)))"
proof -
  let ?x3 = "ucast b3 :: uint32" and ?x2 = "push_bit 8 (ucast b2) :: uint32"
  and ?x1 = "push_bit 16 (ucast b1) :: uint32" and ?x0 = "push_bit 24 (ucast b0) :: uint32"
  have d1: "?x1 AND ?x0 = 0"
    by (rule bit_word_eqI) (auto simp add: bit_simps dest: bit_imp_le_length)
  have d2: "?x2 AND (?x1 OR ?x0) = 0"
    by (rule bit_word_eqI) (auto simp add: bit_simps dest: bit_imp_le_length)
  have d3: "?x3 AND (?x2 OR (?x1 OR ?x0)) = 0"
    by (rule bit_word_eqI) (auto simp add: bit_simps dest: bit_imp_le_length)
  have e3: "?x3 OR ?x2 OR ?x1 OR ?x0 = ?x3 + (?x2 OR ?x1 OR ?x0)"
    using d3 by (simp add: disjunctive_add_eq_or)
  have e2: "?x2 OR ?x1 OR ?x0 = ?x2 + (?x1 OR ?x0)"
    using d2 by (simp add: disjunctive_add_eq_or)
  have e1: "?x1 OR ?x0 = ?x1 + ?x0"
    using d1 by (simp add: disjunctive_add_eq_or)
  show ?thesis
    unfolding BigEndian_Uint32.simps by (subst e3, subst e2, subst e1) (rule refl)
qed

lemma unat_ucast_byte: "unat (ucast b :: uint32) = unat b" for b :: byte
proof -
  have "unat b < 256" using unsigned_less [of b] by simp
  then have "unat b < 2 ^ 32" by simp
  then show ?thesis by (simp add: unsigned_ucast_eq take_bit_nat_eq_self)
qed

lemma unat_BigEndian_Uint32:
  fixes b0 b1 b2 b3 :: byte
  shows "unat (BigEndian_Uint32 [b0, b1, b2, b3]) =
    16777216 * unat b0 + 65536 * unat b1 + 256 * unat b2 + unat b3"
proof -
  have "unat b < 256" for b :: byte using unsigned_less [of b] by simp
  note b = this [of b0] this [of b1] this [of b2] this [of b3]
  have "unat (BigEndian_Uint32 [b0, b1, b2, b3]) =
     (unat b3 + (256 * unat b2 + (65536 * unat b1 + 16777216 * unat b0))) mod 2 ^ 32"
    unfolding BigEndian_Uint32_sum
    by (simp add: unat_word_ariths push_bit_eq_mult unat_ucast_byte mod_simps mult.commute)
  also have "\<dots> = unat b3 + (256 * unat b2 + (65536 * unat b1 + 16777216 * unat b0))"
    using b by simp
  finally show ?thesis by simp
qed

lemma FormatUint10_digits:
  "FormatUint10 u \<noteq> [] \<and> list_all is_digit (FormatUint10 u) \<and> dec 0 (FormatUint10 u) = unat u"
  using formatBits_digits [of u "[]"] by (auto simp add: FormatUint10_def)

lemma ParseUint_FormatUint10:
  fixes v :: uint32
  shows "ParseUint (FormatUint10 (ucast v)) 10 32 = Inr (ucast v)"
proof -
  let ?u = "ucast v :: uint64"
  have "unat v < 2 ^ 32" using unsigned_less [of v] by simp
  then have u: "unat ?u = unat v" by (simp add: unsigned_ucast_eq take_bit_nat_eq_self)
  with \<open>unat v < 2 ^ 32\<close> have "dec 0 (FormatUint10 ?u) < 2 ^ 32"
    using FormatUint10_digits [of ?u] by simp
  moreover have "?u = of_nat (dec 0 (FormatUint10 ?u))"
    using FormatUint10_digits [of ?u] by simp
  ultimately show ?thesis
    using FormatUint10_digits [of ?u] ParseUint_10_32 [of "FormatUint10 ?u" ?u] by blast
qed

lemma ucast_ucast_uint32: "(ucast (ucast v :: uint64) :: uint32) = v"
  by (rule bit_word_eqI) (auto simp add: bit_simps)

lemma BigEndian_PutUint32: "BigEndian_Uint32 (PutUint32 v) = v"
  unfolding PutUint32_def BigEndian_Uint32.simps
proof (rule bit_word_eqI)
  fix n assume "n < LENGTH(32)"
  then have n: "n < 32" by simp
  consider "n < 8" | "8 \<le> n" "n < 16" | "16 \<le> n" "n < 24" | "24 \<le> n" by linarith
  then show "bit (ucast (ucast v :: byte) OR push_bit 8 (ucast (ucast (drop_bit 8 v) :: byte)) OR
        push_bit 16 (ucast (ucast (drop_bit 16 v) :: byte)) OR push_bit 24 (ucast (ucast (drop_bit 24 v) :: byte)) :: uint32) n = bit v n"
    using n by cases (auto simp add: bit_simps)
qed

section \<open>The codec of pguint32\<close>

text \<open>
  C3: for every unsigned 32-bit integer \<open>v\<close>, encoding Present \<open>v\<close> into an empty
  buffer succeeds without signalling null, and decoding the bytes written gives back
  Present \<open>v\<close>, whatever the destination held before; this holds for the binary form
  (\<open>EncodeBinary\<close> then \<open>DecodeBinary\<close>) and for the text form (\<open>EncodeText\<close> then
  \<open>DecodeText\<close>).
\<close>

theorem pguint32_round_trip:
  "fst (EncodeBinary \<lparr>Uint = v, Status = Present\<rparr> Buffer_Write []) = (False, None) \<and>
   DecodeBinary dst (Some (snd (EncodeBinary \<lparr>Uint = v, Status = Present\<rparr> Buffer_Write [])))
     = (None, \<lparr>Uint = v, Status = Present\<rparr>) \<and>
   fst (EncodeText \<lparr>Uint = v, Status = Present\<rparr> Buffer_Write []) = (False, None) \<and>
   DecodeText dst (Some (snd (EncodeText \<lparr>Uint = v, Status = Present\<rparr> Buffer_Write [])))
     = (None, \<lparr>Uint = v, Status = Present\<rparr>)"
proof -
  have b: "EncodeBinary \<lparr>Uint = v, Status = Present\<rparr> Buffer_Write [] = ((False, None), PutUint32 v)"
    by (simp add: EncodeBinary_def WriteUint32_def Buffer_Write_def)
  have t: "EncodeText \<lparr>Uint = v, Status = Present\<rparr> Buffer_Write []
             = ((False, None), bytes_of_string (FormatUint10 (ucast v)))"
    by (simp add: EncodeText_def WriteString_def Buffer_Write_def)
  have "length (PutUint32 v) = 4" by (simp add: PutUint32_def)
  then have db: "DecodeBinary dst (Some (PutUint32 v)) = (None, \<lparr>Uint = v, Status = Present\<rparr>)"
    by (simp add: DecodeBinary_def BigEndian_PutUint32)
  have dt: "DecodeText dst (Some (bytes_of_string (FormatUint10 (ucast v))))
              = (None, \<lparr>Uint = v, Status = Present\<rparr>)"
    by (simp add: DecodeText_def bytes_of_string_of_bytes ParseUint_FormatUint10 ucast_ucast_uint32)
  show ?thesis by (simp add: b t db dt)
qed

theorem pguint32_round_trip_witness:
  "DecodeBinary \<lparr>Uint = 0, Status = Undefined\<rparr>
     (Some (snd (EncodeBinary \<lparr>Uint = 4294967295, Status = Present\<rparr> Buffer_Write [])))
     = (None, \<lparr>Uint = 4294967295, Status = Present\<rparr>) \<and>
   DecodeText \<lparr>Uint = 0, Status = Undefined\<rparr>
     (Some (snd (EncodeText \<lparr>Uint = 4294967295, Status = Present\<rparr> Buffer_Write [])))
     = (None, \<lparr>Uint = 4294967295, Status = Present\<rparr>)"
  using pguint32_round_trip [of 4294967295 "\<lparr>Uint = 0, Status = Undefined\<rparr>"] by simp

lemma big_endian_value_4:
  "big_endian_value [b0, b1, b2, b3] = unat (BigEndian_Uint32 [b0, b1, b2, b3])"
  unfolding unat_BigEndian_Uint32 by (simp add: big_endian_value_def)

text \<open>
  C7: \<open>DecodeBinary\<close> maps the nil input to Null. On an input that is not nil it
  succeeds exactly when the input has 4 bytes: then the result is Present of the
  big-endian unsigned value of the bytes (which is below \<open>2 ^ 32\<close>); for every other
  length it returns the error "invalid length" with that length and leaves the
  destination as it was.
\<close>

theorem DecodeBinary_four_bytes:
  "DecodeBinary dst None = (None, \<lparr>Uint = 0, Status = Null\<rparr>) \<and>
   (length bs = 4 \<longrightarrow>
      DecodeBinary dst (Some bs) = (None, \<lparr>Uint = of_nat (big_endian_value bs), Status = Present\<rparr>)
      \<and> big_endian_value bs < 2 ^ 32) \<and>
   (length bs \<noteq> 4 \<longrightarrow>
      DecodeBinary dst (Some bs)
        = (Some (Errorf ''invalid length: %v'' [GoInt (of_nat (length bs))]), dst))"
proof -
  have "DecodeBinary dst (Some bs) = (None, \<lparr>Uint = of_nat (big_endian_value bs), Status = Present\<rparr>)
      \<and> big_endian_value bs < 2 ^ 32" if "length bs = 4"
  proof -
    from that obtain b0 b1 b2 b3 where bs: "bs = [b0, b1, b2, b3]"
      by (auto simp add: length_Suc_conv numeral_eq_Suc)
    have "big_endian_value bs < 2 ^ 32"
      unfolding bs big_endian_value_4 using unsigned_less [of "BigEndian_Uint32 [b0, b1, b2, b3]"]
      by simp
    moreover have "DecodeBinary dst (Some bs) = (None, \<lparr>Uint = BigEndian_Uint32 bs, Status = Present\<rparr>)"
      using that by (simp add: DecodeBinary_def)
    moreover have "of_nat (big_endian_value bs) = BigEndian_Uint32 bs"
      unfolding bs big_endian_value_4 by simp
    ultimately show ?thesis by simp
  qed
  then show ?thesis by (simp add: DecodeBinary_def)
qed

theorem DecodeBinary_four_bytes_witness:
  "DecodeBinary \<lparr>Uint = 9, Status = Undefined\<rparr> (Some [1, 2, 3, 4])
     = (None, \<lparr>Uint = 16909060, Status = Present\<rparr>) \<and>
   DecodeBinary \<lparr>Uint = 9, Status = Undefined\<rparr> (Some [1, 2, 3])
     = (Some (Errorf ''invalid length: %v'' [GoInt 3]), \<lparr>Uint = 9, Status = Undefined\<rparr>) \<and>
   DecodeBinary \<lparr>Uint = 9, Status = Undefined\<rparr> (Some [])
     = (Some (Errorf ''invalid length: %v'' [GoInt 0]), \<lparr>Uint = 9, Status = Undefined\<rparr>)"
  using DecodeBinary_four_bytes [of "\<lparr>Uint = 9, Status = Undefined\<rparr>" "[1, 2, 3, 4]"]
    DecodeBinary_four_bytes [of "\<lparr>Uint = 9, Status = Undefined\<rparr>" "[1, 2, 3]"]
    DecodeBinary_four_bytes [of "\<lparr>Uint = 9, Status = Undefined\<rparr>" "[]"]
  by (simp add: big_endian_value_def)

text \<open>
  C8: \<open>DecodeText\<close> maps the nil input to Null. On an input that is not nil it succeeds
  exactly when the bytes are unsigned decimal text (at least one digit, digits only, so
  no sign; leading zeros allowed) whose value is below \<open>2 ^ 32\<close>: then the result is
  Present of that value. Every other input (empty, not numeric, or too large) gives the
  \<open>NumError\<close> of \<open>ParseUint\<close> carrying the input, and leaves the destination as it was.
\<close>

theorem DecodeText_decimal:
  "DecodeText dst None = (None, \<lparr>Uint = 0, Status = Null\<rparr>) \<and>
   (decimal_digits bs \<and> decimal_value bs < 2 ^ 32 \<longrightarrow>
      DecodeText dst (Some bs) = (None, \<lparr>Uint = of_nat (decimal_value bs), Status = Present\<rparr>)) \<and>
   (\<not> (decimal_digits bs \<and> decimal_value bs < 2 ^ 32) \<longrightarrow>
      (\<exists>k. DecodeText dst (Some bs)
             = (Some (NumError ''ParseUint'' (string_of_bytes bs) k), dst)))"
proof (cases "ParseUint (string_of_bytes bs) 10 32")
  case (Inl e)
  then have "\<not> (decimal_digits bs \<and> decimal_value bs < 2 ^ 32)"
    using ParseUint_bytes [of bs "of_nat (decimal_value bs)"] by auto
  moreover from ParseUint_10_32_error [OF Inl] obtain k
    where "e = NumError ''ParseUint'' (string_of_bytes bs) k" by blast
  ultimately show ?thesis using Inl by (simp add: DecodeText_def)
next
  case (Inr m)
  then have "decimal_digits bs \<and> decimal_value bs < 2 ^ 32 \<and> m = of_nat (decimal_value bs)"
    by (simp add: ParseUint_bytes)
  moreover have "(ucast (of_nat n :: uint64) :: uint32) = of_nat n" for n
    by (rule bit_word_eqI) (auto simp add: bit_simps)
  ultimately show ?thesis using Inr by (simp add: DecodeText_def)
qed

theorem DecodeText_decimal_witness:
  "DecodeText \<lparr>Uint = 9, Status = Undefined\<rparr> (Some [48, 52, 50])
     = (None, \<lparr>Uint = 42, Status = Present\<rparr>) \<and>
   (\<exists>k. DecodeText \<lparr>Uint = 9, Status = Undefined\<rparr> (Some [43, 49])
      = (Some (NumError ''ParseUint'' ''+1'' k), \<lparr>Uint = 9, Status = Undefined\<rparr>)) \<and>
   (\<exists>k. DecodeText \<lparr>Uint = 9, Status = Undefined\<rparr> (Some [52, 50, 57, 52, 57, 54, 55, 50, 57, 54])
      = (Some (NumError ''ParseUint'' ''4294967296'' k), \<lparr>Uint = 9, Status = Undefined\<rparr>)) \<and>
   (\<exists>k. DecodeText \<lparr>Uint = 9, Status = Undefined\<rparr> (Some [])
      = (Some (NumError ''ParseUint'' [] k), \<lparr>Uint = 9, Status = Undefined\<rparr>))"
proof -
  have s: "string_of_bytes [43, 49] = ''+1''"
    "string_of_bytes [52, 50, 57, 52, 57, 54, 55, 50, 57, 54] = ''4294967296''"
    "string_of_bytes [] = []"
    by code_simp+
  have d: "decimal_digits [48, 52, 50]" "decimal_value [48, 52, 50] = 42"
    "\<not> decimal_digits [43, 49]" "\<not> decimal_digits []"
    "decimal_value [52, 50, 57, 52, 57, 54, 55, 50, 57, 54] = 4294967296"
    by (simp_all add: decimal_digits_def decimal_value_def)
  show ?thesis
    using DecodeText_decimal [of "\<lparr>Uint = 9, Status = Undefined\<rparr>" "[48, 52, 50]"]
      DecodeText_decimal [of "\<lparr>Uint = 9, Status = Undefined\<rparr>" "[43, 49]"]
      DecodeText_decimal [of "\<lparr>Uint = 9, Status = Undefined\<rparr>" "[52, 50, 57, 52, 57, 54, 55, 50, 57, 54]"]
      DecodeText_decimal [of "\<lparr>Uint = 9, Status = Undefined\<rparr>" "[]"]
    unfolding s by (simp add: d)
qed

text \<open>
  C10: whenever \<open>DecodeText\<close> or \<open>DecodeBinary\<close> returns an error, the destination
  after the call is the destination before the call.
\<close>

theorem Decode_error_keeps_destination:
  "(fst (DecodeText dst src) \<noteq> None \<longrightarrow> snd (DecodeText dst src) = dst) \<and>
   (fst (DecodeBinary dst src) \<noteq> None \<longrightarrow> snd (DecodeBinary dst src) = dst)"
  by (simp add: DecodeText_def DecodeBinary_def split: option.splits sum.splits)

theorem Decode_error_keeps_destination_witness:
  "fst (DecodeText \<lparr>Uint = 9, Status = Present\<rparr> (Some [52, 97])) \<noteq> None \<and>
   snd (DecodeText \<lparr>Uint = 9, Status = Present\<rparr> (Some [52, 97])) = \<lparr>Uint = 9, Status = Present\<rparr> \<and>
   fst (DecodeBinary \<lparr>Uint = 9, Status = Present\<rparr> (Some [52, 97])) \<noteq> None \<and>
   snd (DecodeBinary \<lparr>Uint = 9, Status = Present\<rparr> (Some [52, 97])) = \<lparr>Uint = 9, Status = Present\<rparr>"
proof -
  have t: "fst (DecodeText \<lparr>Uint = 9, Status = Present\<rparr> (Some [52, 97])) \<noteq> None"
    by code_simp
  have b: "fst (DecodeBinary \<lparr>Uint = 9, Status = Present\<rparr> (Some [52, 97])) \<noteq> None"
    by (simp add: DecodeBinary_def)
  show ?thesis
    using t b Decode_error_keeps_destination [of "\<lparr>Uint = 9, Status = Present\<rparr>" "Some [52, 97]"]
    by blast
qed

lemma FormatUint10_nonempty: "FormatUint10 u \<noteq> []"
  using FormatUint10_digits [of u] by simp

text \<open>
  C6: for \<open>EncodeText\<close> and \<open>EncodeBinary\<close> and every writer: a Null value returns
  signals-null (true) with no error and the writer untouched; an Undefined value returns
  \<open>errUndefined\<close> with the writer untouched; a Present value makes one \<open>Write\<close> of a
  payload that is not empty and returns that call's error. For a buffer the content
  changes exactly when the status is Present.
\<close>

theorem Encode_writes_iff_Present:
  "(Status src = Null \<longrightarrow>
      EncodeText src w st = ((True, None), st) \<and> EncodeBinary src w st = ((True, None), st)) \<and>
   (Status src = Undefined \<longrightarrow>
      EncodeText src w st = ((False, Some errUndefined), st) \<and>
      EncodeBinary src w st = ((False, Some errUndefined), st)) \<and>
   (Status src = Present \<longrightarrow>
      (\<exists>p. p \<noteq> [] \<and> EncodeText src w st = ((False, fst (w p st)), snd (w p st))) \<and>
      (\<exists>p. p \<noteq> [] \<and> EncodeBinary src w st = ((False, fst (w p st)), snd (w p st)))) \<and>
   (snd (EncodeText src Buffer_Write buf) \<noteq> buf \<longleftrightarrow> Status src = Present) \<and>
   (snd (EncodeBinary src Buffer_Write buf) \<noteq> buf \<longleftrightarrow> Status src = Present)"
proof -
  have t: "\<exists>p. p \<noteq> [] \<and> EncodeText src w st = ((False, fst (w p st)), snd (w p st))"
    if "Status src = Present" for w :: "'c Writer" and st
    using that FormatUint10_nonempty [of "ucast (Uint src)"]
    by (intro exI [of _ "bytes_of_string (FormatUint10 (ucast (Uint src)))"])
       (simp add: EncodeText_def WriteString_def bytes_of_string_def split: prod.splits)
  have b: "\<exists>p. p \<noteq> [] \<and> EncodeBinary src w st = ((False, fst (w p st)), snd (w p st))"
    if "Status src = Present" for w :: "'c Writer" and st
    using that
    by (intro exI [of _ "PutUint32 (Uint src)"])
       (simp add: EncodeBinary_def WriteUint32_def PutUint32_def split: prod.splits)
  have tb: "snd (EncodeText src Buffer_Write buf) \<noteq> buf \<longleftrightarrow> Status src = Present"
    using t [of Buffer_Write buf]
    by (cases "Status src") (auto simp add: EncodeText_def Buffer_Write_def)
  have bb: "snd (EncodeBinary src Buffer_Write buf) \<noteq> buf \<longleftrightarrow> Status src = Present"
    using b [of Buffer_Write buf]
    by (cases "Status src") (auto simp add: EncodeBinary_def Buffer_Write_def)
  show ?thesis using t [of w st] b [of w st] tb bb
    by (simp add: EncodeText_def EncodeBinary_def)
qed

theorem Encode_writes_iff_Present_witness:
  "EncodeText \<lparr>Uint = 7, Status = Null\<rparr> Buffer_Write [1] = ((True, None), [1]) \<and>
   EncodeBinary \<lparr>Uint = 7, Status = Null\<rparr> Buffer_Write [1] = ((True, None), [1]) \<and>
   EncodeText \<lparr>Uint = 7, Status = Undefined\<rparr> Buffer_Write [1] = ((False, Some errUndefined), [1]) \<and>
   EncodeBinary \<lparr>Uint = 7, Status = Undefined\<rparr> Buffer_Write [1] = ((False, Some errUndefined), [1]) \<and>
   snd (EncodeText \<lparr>Uint = 7, Status = Present\<rparr> Buffer_Write [1]) \<noteq> [1] \<and>
   snd (EncodeBinary \<lparr>Uint = 7, Status = Present\<rparr> Buffer_Write [1]) \<noteq> [1]"
  using Encode_writes_iff_Present [of "\<lparr>Uint = 7, Status = Null\<rparr>" Buffer_Write "[1]" "[1]"]
    Encode_writes_iff_Present [of "\<lparr>Uint = 7, Status = Undefined\<rparr>" Buffer_Write "[1]" "[1]"]
    Encode_writes_iff_Present [of "\<lparr>Uint = 7, Status = Present\<rparr>" Buffer_Write "[1]" "[1]"]
  by simp

text \<open>
  C9: for every destination whose dynamic type is neither \<open>*uint32\<close> nor \<open>**uint32\<close>
  (the nil interface included), \<open>AssignTo\<close> returns the nil error and leaves the
  destination as it was.
\<close>

theorem AssignTo_other_destination:
  "TypeOf dst \<noteq> Some (Tptr Tuint32) \<Longrightarrow> TypeOf dst \<noteq> Some (Tptr (Tptr Tuint32)) \<Longrightarrow>
   AssignTo src dst = Return (None, dst)"
  by (cases dst) (simp_all add: AssignTo_def split: go_type.splits)

theorem AssignTo_other_destination_witness:
  "TypeOf (Ptr Tuint64 (Some (GoUint64 3))) \<noteq> Some (Tptr Tuint32) \<and>
   TypeOf (Ptr Tuint64 (Some (GoUint64 3))) \<noteq> Some (Tptr (Tptr Tuint32)) \<and>
   AssignTo \<lparr>Uint = 5, Status = Present\<rparr> (Ptr Tuint64 (Some (GoUint64 3)))
     = Return (None, Ptr Tuint64 (Some (GoUint64 3))) \<and>
   AssignTo \<lparr>Uint = 5, Status = Undefined\<rparr> (GoUint32 3) = Return (None, GoUint32 3)"
  using AssignTo_other_destination [of "Ptr Tuint64 (Some (GoUint64 3))" "\<lparr>Uint = 5, Status = Present\<rparr>"]
    AssignTo_other_destination [of "GoUint32 3" "\<lparr>Uint = 5, Status = Undefined\<rparr>"]
  by simp

text \<open>
  C2, as stated, fails for the destination type \<open>**uint32\<close>: an Undefined value
  assigned to a pointer to a pointer returns the nil error and sets the pointer to nil.
\<close>

theorem AssignTo_Undefined_counterexample:
  "AssignTo \<lparr>Uint = 5, Status = Undefined\<rparr> (Ptr (Tptr Tuint32) (Some (Ptr Tuint32 (Some (GoUint32 7)))))
     = Return (None, Ptr (Tptr Tuint32) (Some (Ptr Tuint32 None)))"
  by (simp add: AssignTo_def)

text \<open>
  C2, amended: for a value whose status is Undefined, \<open>AssignTo\<close> with a destination of
  type \<open>*uint32\<close> (nil or not) returns the error "cannot assign" and leaves the
  destination as it was; with a destination of type \<open>**uint32\<close> that is not nil it
  returns the nil error and sets the pointer it points to to nil, as it does for Null;
  with the nil \<open>**uint32\<close> it panics.
\<close>

theorem AssignTo_Undefined:
  "Status src = Undefined \<Longrightarrow>
     AssignTo src (Ptr Tuint32 v)
       = Return (Some (Errorf ''cannot assign %v into %T''
                         [Ptr Tpguint32 (Some (GoPguint32 src)), Ptr Tuint32 v]), Ptr Tuint32 v) \<and>
     AssignTo src (Ptr (Tptr Tuint32) (Some p))
       = Return (None, Ptr (Tptr Tuint32) (Some (Ptr Tuint32 None))) \<and>
     AssignTo src (Ptr (Tptr Tuint32) None) = Panic"
  by (simp add: AssignTo_def)

theorem AssignTo_Undefined_witness:
  "Status \<lparr>Uint = 5, Status = Undefined\<rparr> = Undefined \<and>
   AssignTo \<lparr>Uint = 5, Status = Undefined\<rparr> (Ptr Tuint32 (Some (GoUint32 7)))
     = Return (Some (Errorf ''cannot assign %v into %T''
                       [Ptr Tpguint32 (Some (GoPguint32 \<lparr>Uint = 5, Status = Undefined\<rparr>)),
                        Ptr Tuint32 (Some (GoUint32 7))]), Ptr Tuint32 (Some (GoUint32 7))) \<and>
   AssignTo \<lparr>Uint = 5, Status = Undefined\<rparr> (Ptr (Tptr Tuint32) (Some (Ptr Tuint32 None)))
     = Return (None, Ptr (Tptr Tuint32) (Some (Ptr Tuint32 None)))"
  using AssignTo_Undefined [of "\<lparr>Uint = 5, Status = Undefined\<rparr>" "Some (GoUint32 7)" "Ptr Tuint32 None"]
  by simp

text \<open>
  C5, as stated, fails in what the message names: the error of \<open>ConvertFrom\<close> formats
  the source with \<open>%v\<close>, its value, so the sources \<open>uint64(5)\<close> and \<open>int64(5)\<close> of
  two different types give the same message, which names neither type.
\<close>

theorem ConvertFrom_message_counterexample:
  "TypeOf (GoUint64 5) \<noteq> TypeOf (GoInt64 5) \<and>
   Option.bind (fst (ConvertFrom \<lparr>Uint = 0, Status = Undefined\<rparr> (GoUint64 5))) (Errorf_message (\<lambda>v. []))
     = Some ''cannot convert 5 to pguint32'' \<and>
   Option.bind (fst (ConvertFrom \<lparr>Uint = 0, Status = Undefined\<rparr> (GoInt64 5))) (Errorf_message (\<lambda>v. []))
     = Some ''cannot convert 5 to pguint32''"
  by code_simp

lemma Sprintf_cannot_convert:
  "Sprintf pp ''cannot convert %v to pguint32'' [src]
     = ''cannot convert '' @ Sprint_v pp src @ '' to pguint32''"
  by simp

text \<open>
  C5, amended: \<open>ConvertFrom\<close> succeeds exactly when the source has the dynamic type
  \<open>uint32\<close>, and then sets the value to Present with that integer. For a source of any
  other type (a 64-bit integer, the nil interface) it leaves the value as it was and
  returns an error whose message is "cannot convert ", the source's value in the
  default format \<open>%v\<close>, " to pguint32": nothing is widened, narrowed or truncated.
\<close>

theorem ConvertFrom_uint32_only:
  "(fst (ConvertFrom dst src) = None \<longleftrightarrow> TypeOf src = Some Tuint32) \<and>
   ConvertFrom dst (GoUint32 v) = (None, \<lparr>Uint = v, Status = Present\<rparr>) \<and>
   (TypeOf src \<noteq> Some Tuint32 \<longrightarrow>
      snd (ConvertFrom dst src) = dst \<and>
      Option.bind (fst (ConvertFrom dst src)) (Errorf_message pp)
        = Some (''cannot convert '' @ Sprint_v pp src @ '' to pguint32''))"
  by (cases src) (simp_all add: ConvertFrom_def del: Sprintf.simps add: Sprintf_cannot_convert)

theorem ConvertFrom_uint32_only_witness:
  "ConvertFrom \<lparr>Uint = 0, Status = Undefined\<rparr> (GoUint32 7) = (None, \<lparr>Uint = 7, Status = Present\<rparr>) \<and>
   TypeOf (GoUint64 7) \<noteq> Some Tuint32 \<and>
   fst (ConvertFrom \<lparr>Uint = 0, Status = Undefined\<rparr> (GoUint64 7)) \<noteq> None \<and>
   snd (ConvertFrom \<lparr>Uint = 0, Status = Undefined\<rparr> (GoUint64 7)) = \<lparr>Uint = 0, Status = Undefined\<rparr> \<and>
   Option.bind (fst (ConvertFrom \<lparr>Uint = 0, Status = Undefined\<rparr> (GoUint64 7))) (Errorf_message (\<lambda>v. []))
     = Some (''cannot convert '' @ Sprint_v (\<lambda>v. []) (GoUint64 7) @ '' to pguint32'')"
  using ConvertFrom_uint32_only [of "\<lparr>Uint = 0, Status = Undefined\<rparr>" "GoUint64 7" 7 "\<lambda>v. []"]
  by simp

section \<open>The batch pipeline: lemmas\<close>

lemma foldl_Queue:
  "\<not> sent b \<Longrightarrow> foldl (\<lambda>b q. Queue q b) b qs = b\<lparr>items := items b @ qs\<rparr>"
  by (induction qs arbitrary: b) (simp_all add: Queue_def)

lemma queue_all_eq: "queue_all qs = BeginBatch\<lparr>items := qs\<rparr>"
proof -
  have "\<not> sent BeginBatch" and "items BeginBatch = []" by (simp_all add: BeginBatch_def)
  with foldl_Queue [of BeginBatch qs] show ?thesis by (simp add: queue_all_def)
qed

lemma Send_queue_all:
  "Send db (queue_all qs) = (None, BeginBatch\<lparr>items := qs, sent := True, inbound := server db qs\<rparr>)"
  by (simp add: queue_all_eq Send_def BeginBatch_def)

lemma die_not_alive: "\<not> alive (die e b)"
  by (simp add: die_def)

lemma alive_rows_end: "alive (rows_end f b) \<longleftrightarrow> alive b \<and> f \<noteq> Broken"
  by (cases f) (simp_all add: note_server_error_def die_def)

lemma dead_stays_dead: "\<not> alive b \<Longrightarrow> \<not> alive (apply_call db b c)"
proof (cases c)
  case CallClose
  assume "\<not> alive b"
  then show ?thesis
    unfolding CallClose
    by (auto simp add: Close_def Rows_Close_def alive_rows_end note_server_error_def die_def Let_def
             split: prod.splits option.splits list.splits message.splits if_splits)
next
  case CallNext
  assume "\<not> alive b"
  then show ?thesis
    unfolding CallNext
    by (auto simp add: Next_def note_server_error_def die_def split: prod.splits fetched.splits)
next
  case CallRowsClose
  assume "\<not> alive b"
  then show ?thesis
    unfolding CallRowsClose
    by (auto simp add: Rows_Close_def alive_rows_end split: prod.splits)
qed (auto simp add: Queue_def Send_def cancelFn_def ExecResults_def QueryResults_def
       accessor_guard_def note_server_error_def die_def
       split: prod.splits option.splits completion.splits if_splits)

lemma run_dead: "\<not> alive b \<Longrightarrow> \<not> alive (run db cs b)"
  unfolding run_def by (induction cs arbitrary: b) (simp_all add: dead_stays_dead)

lemma alive_before_accessor: "IsAlive (cancelFn (snd (Send db (queue_all qs))))"
  by (simp add: Send_queue_all cancelFn_def IsAlive_def BeginBatch_def)







lemma fetch_active:
  "fetch_row a (map DataRow (r # rs) @ ms) = ((Row r, 0), map DataRow rs @ ms)"
  "fetch_row True (CommandComplete n # ms) = ((End, 1), ms)"
  "fetch_row a (ErrorResponse c # ms) = ((Failure c, 1), ms)"
  by simp_all






lemma rows_end_fields [simp]:
  "sent (rows_end f b) = sent b" "items (rows_end f b) = items b"
  "resultsRead (rows_end f b) = resultsRead b" "canceled (rows_end f b) = canceled b"
  "closed (rows_end f b) = closed b" "inbound (rows_end f b) = inbound b"
  "rows_open (rows_end f b) = False"
  by (cases f; simp add: note_server_error_def die_def)+

lemma rows_end_End [simp]:
  "err (rows_end End b) = err b" "server_err (rows_end End b) = server_err b"
  "alive (rows_end End b) = alive b"
  by simp_all

declare rows_end.simps [simp del]










lemma rows_end_Failure [simp]:
  "err (rows_end (Failure c) b) = err b"
  "server_err (rows_end (Failure c) b) = (if server_err b = None then Some (PgError c) else server_err b)"
  "alive (rows_end (Failure c) b) = alive b"
  "rows_err (rows_end (Failure c) b) = Some (PgError c)"
  by (simp_all add: rows_end.simps note_server_error_def)




subsection \<open>The tests on the model\<close>

text \<open>
  Five tests of batch_test.go pass on the model. \<open>TestConnBeginBatchQueryError\<close> passes
  up to its last check: the rows and \<open>Close\<close> report the error 22012, as the test
  requires, but the test then requires the connection to be dead, where the
  specification (Sections 7 and 8), and with it the model, keeps it alive.
\<close>

lemma TestConnBeginBatch_passes: "TestConnBeginBatch test_server = []"
  by code_simp

lemma TestConnBeginBatchContextCancelBeforeExecResults_passes:
  "TestConnBeginBatchContextCancelBeforeExecResults test_server = []"
  by code_simp

lemma TestConnBeginBatchContextCancelBeforeQueryResults_passes:
  "TestConnBeginBatchContextCancelBeforeQueryResults test_server = []"
  by code_simp

lemma TestConnBeginBatchContextCancelBeforeFinish_passes:
  "TestConnBeginBatchContextCancelBeforeFinish test_server = []"
  by code_simp

lemma TestConnBeginBatchCloseRowsPartiallyRead_passes:
  "TestConnBeginBatchCloseRowsPartiallyRead test_server = []"
  by code_simp

lemma TestConnBeginBatchQueryError_last_check:
  "TestConnBeginBatchQueryError test_server = [''conn should be dead, but was alive'']"
  by code_simp

section \<open>The batch pipeline: errors and cancellation\<close>




text \<open>
  C4: for every batch and server, \<open>Send\<close> on the queued items completes; if the token is
  canceled after that and before any result is retrieved, the next accessor, be it
  \<open>ExecResults\<close> or \<open>QueryResults\<close>, returns the cancellation error, and the
  connection's liveness check reports false right after it and after every sequence of
  later calls on the batch, its rows, the token and \<open>Close\<close>.
\<close>

theorem cancel_after_Send_is_fatal:
  "let b = cancelFn (snd (Send db (queue_all qs)))
   in fst (Send db (queue_all qs)) = None \<and>
      fst (ExecResults b) = (0, Some Canceled) \<and>
      fst (QueryResults b) = Some Canceled \<and>
      \<not> IsAlive (snd (ExecResults b)) \<and>
      \<not> IsAlive (snd (QueryResults b)) \<and>
      \<not> IsAlive (run db cs (snd (ExecResults b))) \<and>
      \<not> IsAlive (run db cs (snd (QueryResults b)))"
proof -
  define b where "b = cancelFn (snd (Send db (queue_all qs)))"
  have g: "accessor_guard b = (Some Canceled, die Canceled b)"
    by (simp add: b_def Send_queue_all cancelFn_def accessor_guard_def BeginBatch_def)
  have e: "ExecResults b = ((0, Some Canceled), die Canceled b)"
    and q: "QueryResults b = (Some Canceled, die Canceled b)"
    by (simp_all add: ExecResults_def QueryResults_def g)
  have "\<not> alive (run db cs (die Canceled b))" for cs
    by (rule run_dead) (rule die_not_alive)
  then show ?thesis
    unfolding Let_def b_def [symmetric]
    by (simp add: e q IsAlive_def die_not_alive Send_queue_all)
qed

theorem cancel_after_Send_is_fatal_witness:
  "let b = cancelFn (snd (Send test_server (queue_all [insert_ledger ''q1'' 1, select_sleep])))
   in fst (ExecResults b) = (0, Some Canceled) \<and>
      fst (QueryResults b) = Some Canceled \<and>
      \<not> IsAlive (run test_server [CallExecResults, CallQueryResults, CallClose] (snd (ExecResults b))) \<and>
      \<not> IsAlive (run test_server [CallExecResults, CallQueryResults, CallClose] (snd (QueryResults b)))"
  using cancel_after_Send_is_fatal [of test_server "[insert_ledger ''q1'' 1, select_sleep]"
          "[CallExecResults, CallQueryResults, CallClose]"]
  by (simp add: Let_def)

end
